theory Spec2Isabelle
  imports Main
begin

section \<open>JavaScript values and truthiness\<close>

text \<open>
  The values the helpers test with \<^verbatim>\<open>if (x)\<close>, read from a JSON file or find in a key
  list. Numbers are the integral ones. Arrays and objects are truthy whatever they hold.
\<close>

datatype jsval =
    JUndefined
  | JNull
  | JBool bool
  | JNum int
  | JStr string
  | JArr "jsval list"
  | JObj "(string \<times> jsval) list"

fun js_truthy :: "jsval \<Rightarrow> bool" where
  "js_truthy JUndefined = False"
| "js_truthy JNull = False"
| "js_truthy (JBool b) = b"
| "js_truthy (JNum n) = (n \<noteq> 0)"
| "js_truthy (JStr s) = (s \<noteq> [])"
| "js_truthy (JArr xs) = True"
| "js_truthy (JObj kvs) = True"

section \<open>LogHelper: messages and the ways a call ends\<close>

text \<open>
  A message is the text of a template literal. The pieces that the source passes through
  \<^verbatim>\<open>chalk.underline\<close> and \<^verbatim>\<open>chalk.underline.white\<close> are kept as pieces of their own, so a
  message can be asked which key or file it names without fixing the terminal's escape codes.
\<close>

datatype chunk = Txt string | Underline jsval | UnderlineWhite jsval

type_synonym message = "chunk list"

text \<open>
  Modelled from the spec: \<^verbatim>\<open>LogHelper\<close> is imported by both source files and is not among them.
  \<^verbatim>\<open>LogHelper.throwException(message, cause)\<close> is the spec's \<open>ExceptionError\<close> (message and
  optional cause, always ends the process), \<^verbatim>\<open>LogHelper.exit(message, reason)\<close> is its
  \<open>SoftExit\<close> (message and reason, ends the process with a non-error status). \<open>TypeError\<close> is
  the JavaScript runtime's own exception for a property read on \<^verbatim>\<open>undefined\<close> or \<^verbatim>\<open>null\<close>: it
  does not go through the reporter.
\<close>

datatype failure =
    ExceptionError message "string option"
  | SoftExit message string
  | TypeError

definition throwException :: "message \<Rightarrow> string option \<Rightarrow> failure + 'a" where
  "throwException msg cause = Inl (ExceptionError msg cause)"

definition exit :: "message \<Rightarrow> string \<Rightarrow> failure + 'a" where
  "exit msg reason = Inl (SoftExit msg reason)"

text \<open>\<^verbatim>\<open>await\<close>: a rejected promise ends the caller with the same failure.\<close>

definition await :: "failure + 'a \<Rightarrow> ('a \<Rightarrow> failure + 'b) \<Rightarrow> failure + 'b" where
  "await p k = (case p of Inl e \<Rightarrow> Inl e | Inr x \<Rightarrow> k x)"

section \<open>The shell executor\<close>

text \<open>
  \<^verbatim>\<open>ShellHelper\<close> and \<^verbatim>\<open>until\<close> are imported and not among the source files, so what
  \<^verbatim>\<open>await until(ShellHelper.exec(cmd))\<close> yields is a parameter: a function from the command
  line to the pair \<^verbatim>\<open>[data, err]\<close>. \<open>data\<close> is \<open>None\<close> for a falsy value (nothing was
  produced) and \<open>Some ls\<close> for an array of output lines, which is truthy even when it is
  empty; \<open>err\<close> is \<open>None\<close> for a falsy value and \<open>Some e\<close> for an error.
\<close>

type_synonym cmd_result = "string list option \<times> string option"

type_synonym shell = "string \<Rightarrow> cmd_result"

definition truthy_lines :: "string list option \<Rightarrow> bool" where
  "truthy_lines d = (d \<noteq> None)"

definition truthy_err :: "string option \<Rightarrow> bool" where
  "truthy_err e = (e \<noteq> None)"

section \<open>BranchHelper\<close>

definition checkCleanliness :: "shell \<Rightarrow> failure + bool" where
  \<open>checkCleanliness exec =
     (case exec ''git diff --quiet || echo "dirty"'' of (dirty, err) \<Rightarrow>
        if truthy_err err then
          throwException [Txt ''Could not check directory cleanliness''] err
        else if truthy_lines dirty then
          throwException
            [Txt ''Directory is not clean. You must '', Underline (JStr ''commit''),
             Txt '' or '', Underline (JStr ''discard''), Txt '' your changes first.'']
            None
        else Inr True)\<close>

text \<open>
  \<^verbatim>\<open>nameLines[0]\<close> is \<^verbatim>\<open>undefined\<close> (\<open>None\<close>) on an empty array, and a TypeError when
  \<^verbatim>\<open>nameLines\<close> itself is a falsy value.
\<close>

definition getCurrentBranchName :: "shell \<Rightarrow> failure + string option" where
  "getCurrentBranchName exec =
     (case exec ''git rev-parse --abbrev-ref HEAD'' of (nameLines, err) \<Rightarrow>
        if \<not> truthy_err err then
          (case nameLines of
             None \<Rightarrow> Inl TypeError
           | Some [] \<Rightarrow> Inr None
           | Some (l # ls) \<Rightarrow> Inr (Some l))
        else throwException [Txt ''Could not get current branch name''] err)"

text \<open>
  \<^verbatim>\<open>Config.get().branches\<close> is the configured list of branch names (strings), a parameter.
  \<^verbatim>\<open>includes\<close> compares with strict equality, so \<^verbatim>\<open>undefined\<close> is in no list of strings.
\<close>

definition includes_js :: "string list \<Rightarrow> string option \<Rightarrow> bool" where
  "includes_js branches x = (case x of None \<Rightarrow> False | Some s \<Rightarrow> s \<in> set branches)"

definition checkBranchInConfig :: "string list \<Rightarrow> shell \<Rightarrow> failure + bool" where
  "checkBranchInConfig branches exec =
     await (getCurrentBranchName exec) (\<lambda>currentBranchName.
       if includes_js branches currentBranchName then Inr True
       else exit [Txt ''Current branch is not included in config file''] ''Skipping...'')"

text \<open>\<^verbatim>\<open>String.prototype.split\<close> on a one-character separator: never the empty array.\<close>

fun js_split :: "char \<Rightarrow> string \<Rightarrow> string list" where
  "js_split sep [] = [[]]"
| "js_split sep (c # cs) =
     (if c = sep then [] # js_split sep cs
      else (case js_split sep cs of
              [] \<Rightarrow> [[c]]
            | w # ws \<Rightarrow> (c # w) # ws))"

definition getBranchNamesFromCommitHash :: "shell \<Rightarrow> string \<Rightarrow> failure + string list" where
  \<open>getBranchNamesFromCommitHash exec hash =
     (case exec (''git branch --contains '' @ hash @ '' --format='%(refname:short)' --merged'') of
        (branchNames, err) \<Rightarrow>
          (case branchNames of
             Some ls \<Rightarrow> Inr ls
           | None \<Rightarrow> throwException [Txt ''Could not find last merged branch''] err))\<close>

text \<open>\<^verbatim>\<open>hashesLines[0].split(' ')[0]\<close>: a TypeError when the array of lines is empty.\<close>

definition getLastMergedBranchesNames :: "shell \<Rightarrow> failure + string list" where
  \<open>getLastMergedBranchesNames exec =
     (case exec ''git log --merges --first-parent master -n 1 --pretty=%P'' of
        (hashesLines, hashesErr) \<Rightarrow>
          (case hashesLines of
             Some [] \<Rightarrow> Inl TypeError
           | Some (l # ls) \<Rightarrow> getBranchNamesFromCommitHash exec (hd (js_split CHR '' '' l))
           | None \<Rightarrow> throwException [Txt ''Could not find last merged branch''] hashesErr))\<close>

definition isBranchClean :: "shell \<Rightarrow> string \<Rightarrow> failure + bool" where
  \<open>isBranchClean exec branchName =
     (case exec (''git diff '' @ branchName @ '' | head -1'') of (diff, err) \<Rightarrow>
        if \<not> truthy_err err then Inr (\<not> truthy_lines diff)
        else throwException [Txt ''Could not get branch diff''] err)\<close>

text \<open>
  The pattern of \<^verbatim>\<open>getBranchPushTimestamp\<close> reads an at sign, an opening brace, one or more digits and a closing brace.
  \<open>match_here\<close> is a match that starts at the head of the string, \<open>match_timestamp\<close> the
  first group of the leftmost match (\<open>None\<close> when \<^verbatim>\<open>match\<close> returns null). \<open>to_number\<close> is
  the unary plus on a string of digits, exact as long as the number is below \<open>2 ^ 53\<close>.
\<close>

definition is_digit :: "char \<Rightarrow> bool" where
  "is_digit c = (c \<in> set ''0123456789'')"

fun match_here :: "string \<Rightarrow> string option" where
  "match_here (a # b # rest) =
     (if a = CHR ''@'' \<and> b = CHR ''{'' \<and> takeWhile is_digit rest \<noteq> []
         \<and> (case dropWhile is_digit rest of [] \<Rightarrow> False | c # cs \<Rightarrow> c = CHR ''}'')
      then Some (takeWhile is_digit rest) else None)"
| "match_here s = None"

fun match_timestamp :: "string \<Rightarrow> string option" where
  "match_timestamp [] = None"
| "match_timestamp (c # cs) =
     (case match_here (c # cs) of
        Some d \<Rightarrow> Some d
      | None \<Rightarrow> match_timestamp cs)"

definition to_number :: "string \<Rightarrow> int" where
  "to_number ds = foldl (\<lambda>n c. 10 * n + (of_char c - 48)) 0 ds"

definition getBranchPushTimestamp :: "shell \<Rightarrow> string \<Rightarrow> failure + int" where
  \<open>getBranchPushTimestamp exec branchName =
     (case exec (''git reflog show '' @ branchName @ '' --pretty='%gd' --date=unix -n 1'') of
        (reflogLines, err) \<Rightarrow>
          (case reflogLines of
             Some [] \<Rightarrow> Inl TypeError
           | Some (l # ls) \<Rightarrow>
               (case match_timestamp l of
                  Some d \<Rightarrow> Inr (to_number d)
                | None \<Rightarrow>
                    throwException [Txt (''Could not get reflog for branch '' @ branchName)] err)
           | None \<Rightarrow>
               throwException [Txt (''Could not get reflog for branch '' @ branchName)] err))\<close>

text \<open>
  A promise, settled with a failure or a value. It is an object, and every object is truthy:
  a callback of \<^verbatim>\<open>filter\<close> that returns a promise keeps every element.
\<close>

datatype 'a promise = Promise "failure + 'a"

definition truthy_promise :: "'a promise \<Rightarrow> bool" where
  "truthy_promise p = True"

text \<open>\<^verbatim>\<open>Promise.all\<close>, awaited: the values in order, or the failure of the first that fails.\<close>

fun promise_all :: "(failure + 'a) list \<Rightarrow> failure + 'a list" where
  "promise_all [] = Inr []"
| "promise_all (p # ps) =
     await p (\<lambda>x. await (promise_all ps) (\<lambda>xs. Inr (x # xs)))"

record candidate =
  name :: string
  date :: int

text \<open>An array, empty or not, is truthy.\<close>

definition truthy_array :: "'a list \<Rightarrow> bool" where
  "truthy_array xs = True"

text \<open>
  \<^verbatim>\<open>sort\<close> with the comparator \<^verbatim>\<open>a.date - b.date\<close> is ascending by date and keeps the order
  of equal dates (\<open>sort_key\<close> is the stable insertion sort). The promises that
  \<^verbatim>\<open>isBranchClean\<close> returns inside \<^verbatim>\<open>filter\<close> are never awaited: only their truthiness is
  read. \<^verbatim>\<open>candidateBranches[0].name\<close> is a TypeError on the empty array.
\<close>

definition getLastMergedPrefix :: "shell \<Rightarrow> failure + string" where
  "getLastMergedPrefix exec =
     await (getCurrentBranchName exec) (\<lambda>currentBranchName.
     await (getLastMergedBranchesNames exec) (\<lambda>mergedBranchNames.
     await (promise_all
              (map (\<lambda>n. await (getBranchPushTimestamp exec n)
                            (\<lambda>d. Inr \<lparr>name = n, date = d\<rparr>))
                (filter (\<lambda>n. truthy_promise (Promise (isBranchClean exec n)))
                  (filter (\<lambda>n. Some n \<noteq> currentBranchName) mergedBranchNames))))
       (\<lambda>gathered.
          let candidateBranches = sort_key date gathered in
          if \<not> truthy_array candidateBranches then
            throwException [Txt ''Could not find a suitable merged branch candidate''] None
          else
            (case candidateBranches of
               [] \<Rightarrow> Inl TypeError
             | c # cs \<Rightarrow>
                 let splitName = js_split CHR ''/'' (name c) in
                 if length splitName > 1 then Inr (hd splitName)
                 else throwException
                        [Txt ''Could not extract prefix from last merged branch''] None))))"

text \<open>
  The \<^verbatim>\<open>semver\<close> package is a dependency, so \<^verbatim>\<open>semver.clean\<close> (a version string or null) and
  \<^verbatim>\<open>semver.valid\<close> (the same, of a string or null) are parameters. \<^verbatim>\<open>semver.clean\<close> starts by
  trimming its argument, a TypeError on \<^verbatim>\<open>undefined\<close>.
\<close>

definition truthy_str :: "string option \<Rightarrow> bool" where
  "truthy_str v = (case v of None \<Rightarrow> False | Some s \<Rightarrow> s \<noteq> [])"

definition getLastTagVersion ::
  "(string \<Rightarrow> string option) \<Rightarrow> shell \<Rightarrow> failure + string option" where
  "getLastTagVersion clean exec =
     (case exec ''git describe --abbrev=0'' of (tagLines, err) \<Rightarrow>
        (case tagLines of
           Some [] \<Rightarrow> Inl TypeError
         | Some (l # ls) \<Rightarrow> Inr (clean l)
         | None \<Rightarrow> throwException [Txt ''Could not get last tag''] err))"

definition getCommitSubjectVersion ::
  "(string \<Rightarrow> string option) \<Rightarrow> (string option \<Rightarrow> string option) \<Rightarrow> shell
     \<Rightarrow> failure + string option" where
  "getCommitSubjectVersion clean valid exec =
     (case exec ''git log -1 --pretty=%B | cat'' of (subjectLines, err) \<Rightarrow>
        (case subjectLines of
           Some ls \<Rightarrow>
             Inr (foldl (\<lambda>cleanVersion line.
                           let lineVersion = clean line in
                           if truthy_str (valid lineVersion) then lineVersion else None)
                    None (rev ls))
         | None \<Rightarrow> throwException [Txt ''Could not get last commit subject''] err))"

text \<open>
  The rule of \<^verbatim>\<open>getCommitSubjectVersion\<close> as the specification words it: scan the lines
  front to back, overwrite the one candidate with the cleaned line when that is valid,
  reset it to null when it is not.
\<close>

primrec overwrite_scan ::
  "(string \<Rightarrow> string option) \<Rightarrow> (string option \<Rightarrow> string option) \<Rightarrow> string option
     \<Rightarrow> string list \<Rightarrow> string option" where
  "overwrite_scan clean valid candidate [] = candidate"
| "overwrite_scan clean valid candidate (l # ls) =
     overwrite_scan clean valid
       (if truthy_str (valid (clean l)) then clean l else None) ls"

section \<open>JSONFileChanger\<close>

text \<open>
  A file update target: the relative path and the optional list of keys (\<open>None\<close> when
  \<^verbatim>\<open>file.keys\<close> is absent). A key list can hold any value; only strings are valid keys.
\<close>

record file_target =
  url :: string
  keys :: "jsval list option"

text \<open>
  The \<^verbatim>\<open>edit-json-file\<close> package is a dependency, so the opened file is a parameter: \<open>'d\<close>
  is the content of a JSON file, \<open>ej_open\<close> what \<^verbatim>\<open>fileChanger(path, {})\<close> holds after reading
  the path (given the content on disk, if any), \<open>ej_get\<close> its \<^verbatim>\<open>get(path)\<close> and \<open>ej_set\<close> its
  \<^verbatim>\<open>set(path, value)\<close>. The source calls \<^verbatim>\<open>set\<close> with one argument, so the value it passes is
  \<^verbatim>\<open>undefined\<close>. With the options \<^verbatim>\<open>{}\<close> nothing is written before \<^verbatim>\<open>save()\<close>.
\<close>

record 'd editor =
  ej_open :: "'d option \<Rightarrow> 'd"
  ej_get :: "'d \<Rightarrow> jsval \<Rightarrow> jsval"
  ej_set :: "'d \<Rightarrow> jsval \<Rightarrow> jsval \<Rightarrow> 'd"

text \<open>
  What a run does to the outside: the files on disk by absolute path, and the calls in
  order: a line printed by \<^verbatim>\<open>LogHelper.info\<close>, a \<^verbatim>\<open>set\<close> on the file opened at a path, a
  \<^verbatim>\<open>save\<close> of it.
\<close>

datatype event = Info message | SetCall string jsval | SaveCall string

record 'd world =
  disk :: "string \<Rightarrow> 'd option"
  trace :: "event list"

definition handlerName :: string where
  "handlerName = ''JSONFileChanger''"

definition defaultKeys :: "jsval list" where
  "defaultKeys = [JStr ''version'']"

fun isKeyValid :: "jsval \<Rightarrow> bool" where
  "isKeyValid (JStr s) = True"
| "isKeyValid v = False"

text \<open>
  \<^verbatim>\<open>fileKeys.forEach\<close> (lines 35 to 42) over the opened file \<open>d\<close> and the trace so far: a
  truthy value is passed to \<^verbatim>\<open>set\<close> alone, anything else ends the run.
\<close>

fun forEach_key ::
  "'d editor \<Rightarrow> string \<Rightarrow> string \<Rightarrow> jsval list \<Rightarrow> 'd \<Rightarrow> event list
     \<Rightarrow> (failure + unit) \<times> 'd \<times> event list" where
  "forEach_key ed u path [] d tr = (Inr (), d, tr)"
| "forEach_key ed u path (key # ks) d tr =
     (let val = ej_get ed d key in
      if js_truthy val then
        forEach_key ed u path ks (ej_set ed d val JUndefined) (tr @ [SetCall path val])
      else
        (throwException
           [Txt ''Key '', UnderlineWhite key, Txt '' for file '', UnderlineWhite (JStr u),
            Txt '' was not found.'']
           None,
         d, tr))"

text \<open>The body of \<^verbatim>\<open>filesData.forEach\<close> (lines 20 to 45) for one target.\<close>

definition updateFile ::
  "'d editor \<Rightarrow> string \<Rightarrow> 'd world \<Rightarrow> file_target \<Rightarrow> (failure + unit) \<times> 'd world" where
  "updateFile ed rootPath w file =
     (let path = rootPath @ ''/'' @ url file;
          openedFile = ej_open ed (disk w path);
          unspecified = (case keys file of None \<Rightarrow> True | Some ks \<Rightarrow> ks = []);
          tr0 = (if unspecified
                 then trace w @
                      [Info [Txt (''Keys for file '' @ url file
                                  @ '' not specified. Using default keys instead.'')]]
                 else trace w);
          fileKeys = (case keys file of
                        None \<Rightarrow> defaultKeys
                      | Some ks \<Rightarrow> if ks = [] then defaultKeys else ks);
          invalidKeys = filter (\<lambda>key. \<not> isKeyValid key) fileKeys
      in
      if invalidKeys \<noteq> [] then
        (throwException [Txt (''One or more keys are not valid for '' @ handlerName @ ''.'')] None,
         w\<lparr>trace := tr0 @
              map (\<lambda>key. Info [Txt ''Key '', Underline key,
                                Txt ('' is not valid for '' @ handlerName @ ''.'')])
                invalidKeys\<rparr>)
      else
        (case forEach_key ed (url file) path fileKeys openedFile tr0 of
           (Inl e, d, tr) \<Rightarrow> (Inl e, w\<lparr>trace := tr\<rparr>)
         | (Inr u, d, tr) \<Rightarrow>
             (Inr (), \<lparr>disk = (disk w)(path \<mapsto> d), trace = tr @ [SaveCall path]\<rparr>)))"

text \<open>\<^verbatim>\<open>rootPath\<close> is \<^verbatim>\<open>process.cwd()\<close>. The first failure ends the run.\<close>

fun updateFiles ::
  "'d editor \<Rightarrow> string \<Rightarrow> 'd world \<Rightarrow> file_target list \<Rightarrow> (failure + unit) \<times> 'd world" where
  "updateFiles ed rootPath w [] = (Inr (), w)"
| "updateFiles ed rootPath w (file # files) =
     (case updateFile ed rootPath w file of
        (Inl e, w') \<Rightarrow> (Inl e, w')
      | (Inr u, w') \<Rightarrow> updateFiles ed rootPath w' files)"

text \<open>
  An editor that reads every falsy value as \<^verbatim>\<open>undefined\<close>, the value of a key that is not
  in the file.
\<close>

definition falsy_as_missing :: "'d editor \<Rightarrow> 'd editor" where
  "falsy_as_missing ed =
     ed\<lparr>ej_get := \<lambda>d key. if js_truthy (ej_get ed d key) then ej_get ed d key else JUndefined\<rparr>"

section \<open>Inputs for the closed examples\<close>

text \<open>
  A stand-in for the \<^verbatim>\<open>semver\<close> package on plain \<open>MAJOR.MINOR.PATCH\<close> versions: \<open>clean\<close> trims,
  drops leading \<^verbatim>\<open>=\<close> and \<^verbatim>\<open>v\<close>, and accepts three numeric identifiers without leading
  zeros. It only serves as a concrete argument below.
\<close>

definition is_space :: "char \<Rightarrow> bool" where
  "is_space c = (c \<in> set [CHR '' '', CHR 0x09, CHR 0x0A, CHR 0x0D])"

definition trim :: "string \<Rightarrow> string" where
  "trim s = rev (dropWhile is_space (rev (dropWhile is_space s)))"

definition numeric_identifier :: "string \<Rightarrow> bool" where
  "numeric_identifier s = (s \<noteq> [] \<and> list_all is_digit s \<and> (s = ''0'' \<or> hd s \<noteq> CHR ''0''))"

definition core_version :: "string \<Rightarrow> string option" where
  "core_version s =
     (case js_split CHR ''.'' s of
        [a, b, c] \<Rightarrow>
          if numeric_identifier a \<and> numeric_identifier b \<and> numeric_identifier c
          then Some s else None
      | _ \<Rightarrow> None)"

definition semver_core_clean :: "string \<Rightarrow> string option" where
  "semver_core_clean s = core_version (dropWhile (\<lambda>c. c = CHR ''='' \<or> c = CHR ''v'') (trim s))"

definition semver_core_valid :: "string option \<Rightarrow> string option" where
  "semver_core_valid v = (case v of None \<Rightarrow> None | Some s \<Rightarrow> core_version s)"

text \<open>
  An editor for the closed examples: a JSON object as the list of its top-level members,
  addressed by paths without dots. A missing file opens as the empty object. A member set
  to \<^verbatim>\<open>undefined\<close> reads as \<^verbatim>\<open>undefined\<close> and is left out when the object is written, so
  setting \<^verbatim>\<open>undefined\<close> removes it.
\<close>

type_synonym flat_doc = "(string \<times> jsval) list"

definition flat_get :: "flat_doc \<Rightarrow> jsval \<Rightarrow> jsval" where
  "flat_get d p =
     (case p of
        JStr k \<Rightarrow> (case map_of d k of None \<Rightarrow> JUndefined | Some v \<Rightarrow> v)
      | _ \<Rightarrow> JUndefined)"

fun flat_put :: "string \<Rightarrow> jsval \<Rightarrow> flat_doc \<Rightarrow> flat_doc" where
  "flat_put k v [] = [(k, v)]"
| "flat_put k v ((k', v') # d) =
     (if k = k' then (k, v) # d else (k', v') # flat_put k v d)"

definition flat_set :: "flat_doc \<Rightarrow> jsval \<Rightarrow> jsval \<Rightarrow> flat_doc" where
  "flat_set d p v =
     (case p of
        JStr k \<Rightarrow> if v = JUndefined then filter (\<lambda>kv. fst kv \<noteq> k) d else flat_put k v d
      | _ \<Rightarrow> d)"

definition flat_editor :: "flat_doc editor" where
  "flat_editor =
     \<lparr>ej_open = (\<lambda>content. case content of None \<Rightarrow> [] | Some d \<Rightarrow> d),
      ej_get = flat_get, ej_set = flat_set\<rparr>"

text \<open>A working directory \<open>/repo\<close> whose only file is \<open>package.json\<close>, with the given content.\<close>

definition repo_with :: "flat_doc \<Rightarrow> flat_doc world" where
  "repo_with d =
     \<lparr>disk = (\<lambda>p. if p = ''/repo/package.json'' then Some d else None), trace = []\<rparr>"

text \<open>
  A repository on \<open>master\<close> with a clean tree, the tag \<open>v1.2.3\<close> and a three-line last commit
  message.
\<close>

definition release_repo :: shell where
  \<open>release_repo cmd =
     (if cmd = ''git rev-parse --abbrev-ref HEAD'' then (Some [''master''], None)
      else if cmd = ''git diff --quiet || echo "dirty"'' then (None, None)
      else if cmd = ''git describe --abbrev=0'' then (Some [''v1.2.3''], None)
      else if cmd = ''git log -1 --pretty=%B | cat''
        then (Some [''feat: x'', ''1.2.3'', ''not-a-version''], None)
      else (None, None))\<close>

text \<open>A repository with uncommitted changes whose last tag is named \<open>latest\<close>.\<close>

definition untidy_repo :: shell where
  \<open>untidy_repo cmd =
     (if cmd = ''git rev-parse --abbrev-ref HEAD'' then (Some [''master''], None)
      else if cmd = ''git diff --quiet || echo "dirty"'' then (Some [''dirty''], None)
      else if cmd = ''git describe --abbrev=0'' then (Some [''latest''], None)
      else (None, None))\<close>

text \<open>A directory that is no repository: every command fails.\<close>

definition no_repo :: shell where
  "no_repo cmd = (None, Some ''fatal: not a git repository'')"

text \<open>
  The last merge brought in \<open>fix/typo\<close>, which equals HEAD; \<open>feature/login\<close> also contains
  the merged commit, differs from HEAD and was pushed earlier.
\<close>

definition dirty_candidate :: shell where
  \<open>dirty_candidate cmd =
     (if cmd = ''git rev-parse --abbrev-ref HEAD'' then (Some [''master''], None)
      else if cmd = ''git log --merges --first-parent master -n 1 --pretty=%P''
        then (Some [''1a2b3c4 5d6e7f8''], None)
      else if cmd = ''git branch --contains 1a2b3c4 --format='%(refname:short)' --merged''
        then (Some [''master'', ''fix/typo'', ''feature/login''], None)
      else if cmd = ''git diff feature/login | head -1''
        then (Some [''diff --git a/login.js b/login.js''], None)
      else if cmd = ''git diff fix/typo | head -1'' then (None, None)
      else if cmd = ''git reflog show feature/login --pretty='%gd' --date=unix -n 1''
        then (Some [''feature/login@'' @ ''{1500000000}''], None)
      else if cmd = ''git reflog show fix/typo --pretty='%gd' --date=unix -n 1''
        then (Some [''fix/typo@'' @ ''{1600000000}''], None)
      else (None, Some ''unknown command''))\<close>

text \<open>Only the current branch contains the merged commit.\<close>

definition only_current :: shell where
  \<open>only_current cmd =
     (if cmd = ''git rev-parse --abbrev-ref HEAD'' then (Some [''master''], None)
      else if cmd = ''git log --merges --first-parent master -n 1 --pretty=%P''
        then (Some [''1a2b3c4 5d6e7f8''], None)
      else if cmd = ''git branch --contains 1a2b3c4 --format='%(refname:short)' --merged''
        then (Some [''master''], None)
      else (None, Some ''unknown command''))\<close>

text \<open>The one candidate is named \<open>hotfix\<close>, without a slash.\<close>

definition no_slash :: shell where
  \<open>no_slash cmd =
     (if cmd = ''git rev-parse --abbrev-ref HEAD'' then (Some [''master''], None)
      else if cmd = ''git log --merges --first-parent master -n 1 --pretty=%P''
        then (Some [''1a2b3c4 5d6e7f8''], None)
      else if cmd = ''git branch --contains 1a2b3c4 --format='%(refname:short)' --merged''
        then (Some [''master'', ''hotfix''], None)
      else if cmd = ''git diff hotfix | head -1'' then (None, None)
      else if cmd = ''git reflog show hotfix --pretty='%gd' --date=unix -n 1''
        then (Some [''hotfix@'' @ ''{1600000000}''], None)
      else (None, Some ''unknown command''))\<close>

section \<open>Properties of BranchHelper\<close>

text \<open>
  C8. \<open>checkCleanliness\<close> returns true when the diff probe reports no error and produced
  nothing (its result is the falsy value that \<^verbatim>\<open>if (dirty)\<close> tests for); it ends in the
  fatal error \<open>Directory is not clean\<close> whenever the probe's result is an array of lines, and
  in the fatal error \<open>Could not check directory cleanliness\<close> whenever the probe itself
  reported an error.
\<close>

theorem checkCleanliness_clean_or_throws:
  \<open>(exec ''git diff --quiet || echo "dirty"'' = (None, None) \<longrightarrow>
       checkCleanliness exec = Inr True)
   \<and> (\<forall>ls. exec ''git diff --quiet || echo "dirty"'' = (Some ls, None) \<longrightarrow>
       checkCleanliness exec =
         Inl (ExceptionError
           [Txt ''Directory is not clean. You must '', Underline (JStr ''commit''),
            Txt '' or '', Underline (JStr ''discard''), Txt '' your changes first.'']
           None))
   \<and> (\<forall>d e. exec ''git diff --quiet || echo "dirty"'' = (d, Some e) \<longrightarrow>
       checkCleanliness exec =
         Inl (ExceptionError [Txt ''Could not check directory cleanliness''] (Some e)))\<close>
  by (simp add: checkCleanliness_def throwException_def truthy_err_def truthy_lines_def)

theorem checkCleanliness_clean_or_throws_witness:
  \<open>checkCleanliness release_repo = Inr True
   \<and> checkCleanliness untidy_repo =
       Inl (ExceptionError
         [Txt ''Directory is not clean. You must '', Underline (JStr ''commit''),
          Txt '' or '', Underline (JStr ''discard''), Txt '' your changes first.'']
         None)
   \<and> checkCleanliness no_repo =
       Inl (ExceptionError [Txt ''Could not check directory cleanliness'']
         (Some ''fatal: not a git repository''))\<close>
  using checkCleanliness_clean_or_throws [of release_repo]
    checkCleanliness_clean_or_throws [of untidy_repo]
    checkCleanliness_clean_or_throws [of no_repo]
  by (simp add: release_repo_def untidy_repo_def no_repo_def)

text \<open>
  C9. When the current branch name is resolved, \<open>checkBranchInConfig\<close> returns true exactly
  when that name is in the configured list, and for a name outside the list it ends in the
  soft exit, not in the fatal error. It returns true in no other case, and a fatal error
  can only be the one of \<open>getCurrentBranchName\<close>.
\<close>

theorem checkBranchInConfig_member_or_soft_exit:
  "(\<forall>n. getCurrentBranchName exec = Inr (Some n) \<longrightarrow>
       (checkBranchInConfig branches exec = Inr True) = (n \<in> set branches)
       \<and> (n \<notin> set branches \<longrightarrow>
            checkBranchInConfig branches exec =
              Inl (SoftExit [Txt ''Current branch is not included in config file'']
                     ''Skipping...'')))
   \<and> (checkBranchInConfig branches exec = Inr True \<longrightarrow>
        (\<exists>n. getCurrentBranchName exec = Inr (Some n) \<and> n \<in> set branches))
   \<and> (\<forall>msg cause. checkBranchInConfig branches exec = Inl (ExceptionError msg cause) \<longrightarrow>
        getCurrentBranchName exec = Inl (ExceptionError msg cause))"
  by (auto simp add: checkBranchInConfig_def await_def includes_js_def exit_def
        split: sum.splits option.splits)

theorem checkBranchInConfig_member_or_soft_exit_witness:
  "getCurrentBranchName release_repo = Inr (Some ''master'')
   \<and> checkBranchInConfig [''master'', ''develop''] release_repo = Inr True
   \<and> checkBranchInConfig [''develop''] release_repo =
       Inl (SoftExit [Txt ''Current branch is not included in config file''] ''Skipping...'')"
proof -
  have cur: "getCurrentBranchName release_repo = Inr (Some ''master'')"
    by (simp add: getCurrentBranchName_def release_repo_def truthy_err_def)
  have listed: "''master'' \<in> set [''master'', ''develop'']"
    by simp
  have unlisted: "''master'' \<notin> set [''develop'']"
    by simp
  have yes: "checkBranchInConfig [''master'', ''develop''] release_repo = Inr True"
    using checkBranchInConfig_member_or_soft_exit [of release_repo "[''master'', ''develop'']"]
      cur listed by blast
  have no: "checkBranchInConfig [''develop''] release_repo =
       Inl (SoftExit [Txt ''Current branch is not included in config file''] ''Skipping...'')"
    using checkBranchInConfig_member_or_soft_exit [of release_repo "[''develop'']"]
      cur unlisted by blast
  show ?thesis
    using cur yes no by blast
qed

text \<open>
  C4, as stated, fails: a tag name that \<^verbatim>\<open>semver.clean\<close> cannot normalise does not make
  \<open>getLastTagVersion\<close> fail. With the last tag named \<open>latest\<close> it returns null.
\<close>

theorem getLastTagVersion_fails_on_malformed_counterexample:
  "semver_core_clean ''latest'' = None
   \<and> getLastTagVersion semver_core_clean untidy_repo = Inr None"
  by code_simp

text \<open>
  C4, amended. \<open>getLastTagVersion\<close> returns \<^verbatim>\<open>semver.clean\<close> of the first line that
  \<^verbatim>\<open>git describe --abbrev=0\<close> printed, whatever that is (null for a malformed tag name), and
  ends in the fatal error \<open>Could not get last tag\<close> when the probe gave no lines.
\<close>

theorem getLastTagVersion_clean_or_no_tag:
  "(\<forall>l ls err. exec ''git describe --abbrev=0'' = (Some (l # ls), err) \<longrightarrow>
       getLastTagVersion clean exec = Inr (clean l))
   \<and> (\<forall>err. exec ''git describe --abbrev=0'' = (None, err) \<longrightarrow>
       getLastTagVersion clean exec =
         Inl (ExceptionError [Txt ''Could not get last tag''] err))"
  by (simp add: getLastTagVersion_def throwException_def)

theorem getLastTagVersion_clean_or_no_tag_witness:
  "getLastTagVersion semver_core_clean release_repo = Inr (Some ''1.2.3'')
   \<and> getLastTagVersion semver_core_clean no_repo =
       Inl (ExceptionError [Txt ''Could not get last tag'']
              (Some ''fatal: not a git repository''))"
proof -
  have c: "semver_core_clean ''v1.2.3'' = Some ''1.2.3''"
    by code_simp
  show ?thesis
    using c getLastTagVersion_clean_or_no_tag [of release_repo semver_core_clean]
      getLastTagVersion_clean_or_no_tag [of no_repo semver_core_clean]
    by (simp add: release_repo_def no_repo_def)
qed

text \<open>The loop of \<open>getCommitSubjectVersion\<close> is the scan, and the scan keeps its last step.\<close>

lemma foldl_overwrite_scan:
  "foldl (\<lambda>cleanVersion line.
            let lineVersion = clean line in
            if truthy_str (valid lineVersion) then lineVersion else None) c ls
   = overwrite_scan clean valid c ls"
  by (induction ls arbitrary: c) (simp_all add: Let_def)

lemma overwrite_scan_snoc:
  "overwrite_scan clean valid c (ls @ [l]) =
     (if truthy_str (valid (clean l)) then clean l else None)"
  by (induction ls arbitrary: c) simp_all

text \<open>
  C3. For a non-empty list of message lines, \<open>getCommitSubjectVersion\<close> returns what the
  overwrite scan leaves after running over the reversed list, which is the cleaned first
  line of the message when that is valid and null otherwise; so it is for the lines
  \<open>feat: x\<close>, \<open>1.2.3\<close>, \<open>not-a-version\<close>.
\<close>

theorem getCommitSubjectVersion_reverse_scan:
  assumes "exec ''git log -1 --pretty=%B | cat'' = (Some ls, err)" and "ls \<noteq> []"
  shows "getCommitSubjectVersion clean valid exec =
           Inr (overwrite_scan clean valid None (rev ls))
         \<and> getCommitSubjectVersion clean valid exec =
           Inr (if truthy_str (valid (clean (hd ls))) then clean (hd ls) else None)
         \<and> (ls = [''feat: x'', ''1.2.3'', ''not-a-version''] \<longrightarrow>
            getCommitSubjectVersion clean valid exec =
              Inr (if truthy_str (valid (clean ''feat: x'')) then clean ''feat: x'' else None))"
proof -
  have run: "getCommitSubjectVersion clean valid exec =
               Inr (overwrite_scan clean valid None (rev ls))"
    using assms(1) by (simp add: getCommitSubjectVersion_def foldl_overwrite_scan)
  obtain l rest where ls: "ls = l # rest"
    using assms(2) by (cases ls) auto
  have last: "overwrite_scan clean valid None (rev ls) =
                (if truthy_str (valid (clean (hd ls))) then clean (hd ls) else None)"
    by (simp add: ls overwrite_scan_snoc)
  show ?thesis
    using run last by auto
qed

theorem getCommitSubjectVersion_reverse_scan_witness:
  "release_repo ''git log -1 --pretty=%B | cat'' =
     (Some [''feat: x'', ''1.2.3'', ''not-a-version''], None)
   \<and> semver_core_clean ''feat: x'' = None
   \<and> getCommitSubjectVersion semver_core_clean semver_core_valid release_repo = Inr None"
proof -
  have out: "release_repo ''git log -1 --pretty=%B | cat'' =
               (Some [''feat: x'', ''1.2.3'', ''not-a-version''], None)"
    by (simp add: release_repo_def)
  have c: "semver_core_clean ''feat: x'' = None"
    by code_simp
  show ?thesis
    using out c
      getCommitSubjectVersion_reverse_scan
        [of release_repo "[''feat: x'', ''1.2.3'', ''not-a-version'']" None
            semver_core_clean semver_core_valid]
    by (simp add: truthy_str_def semver_core_valid_def)
qed

text \<open>
  The result of \<open>getLastMergedPrefix\<close> does not depend on what any cleanliness probe
  answers: two shells that differ only on the \<^verbatim>\<open>git diff <branch> | head -1\<close> commands give
  the same result.
\<close>

lemma cleanliness_probes_unread:
  assumes "\<And>cmd. \<not> (\<exists>n. cmd = ''git diff '' @ n @ '' | head -1'') \<Longrightarrow> exec cmd = exec' cmd"
  shows "getLastMergedPrefix exec = getLastMergedPrefix exec'"
proof -
  have cur: "getCurrentBranchName exec = getCurrentBranchName exec'"
    using assms [of "''git rev-parse --abbrev-ref HEAD''"]
    by (simp add: getCurrentBranchName_def)
  have names: "getBranchNamesFromCommitHash exec h = getBranchNamesFromCommitHash exec' h" for h
    using assms [of "''git branch --contains '' @ h @ '' --format='%(refname:short)' --merged''"]
    by (simp add: getBranchNamesFromCommitHash_def)
  have merged: "getLastMergedBranchesNames exec = getLastMergedBranchesNames exec'"
    using assms [of "''git log --merges --first-parent master -n 1 --pretty=%P''"]
    by (simp add: getLastMergedBranchesNames_def names
          split: prod.splits option.splits list.splits)
  have ts: "getBranchPushTimestamp exec n = getBranchPushTimestamp exec' n" for n
    using assms [of "''git reflog show '' @ n @ '' --pretty='%gd' --date=unix -n 1''"]
    by (simp add: getBranchPushTimestamp_def)
  show ?thesis
    by (simp add: getLastMergedPrefix_def cur merged ts truthy_promise_def cong: if_cong)
qed

text \<open>
  C1. The code at an input where the claim asks for \<open>fix\<close>: of the two candidates,
  \<open>feature/login\<close> differs from HEAD and \<open>fix/typo\<close> does not, and \<open>getLastMergedPrefix\<close>
  returns the prefix of \<open>feature/login\<close>, the earlier pushed one.
\<close>

theorem getLastMergedPrefix_takes_dirty_branch:
  "isBranchClean dirty_candidate ''feature/login'' = Inr False
   \<and> isBranchClean dirty_candidate ''fix/typo'' = Inr True
   \<and> getBranchPushTimestamp dirty_candidate ''feature/login'' = Inr 1500000000
   \<and> getBranchPushTimestamp dirty_candidate ''fix/typo'' = Inr 1600000000
   \<and> getLastMergedPrefix dirty_candidate = Inr ''feature''"
  by code_simp

text \<open>
  No failure of \<open>getLastMergedPrefix\<close> carries the message of the guard on the candidate
  list: the guard tests an array, and never fires.
\<close>

lemma promise_all_timestamps_message:
  "promise_all
     (map (\<lambda>n. await (getBranchPushTimestamp exec n) (\<lambda>d. Inr \<lparr>name = n, date = d\<rparr>)) ns)
   \<noteq> Inl (ExceptionError [Txt ''Could not find a suitable merged branch candidate''] cause)"
  by (induction ns)
    (auto simp add: await_def getBranchPushTimestamp_def throwException_def
       split: sum.splits option.splits list.splits prod.splits)

lemma no_candidate_message_unreachable:
  "getLastMergedPrefix exec \<noteq>
     Inl (ExceptionError [Txt ''Could not find a suitable merged branch candidate''] cause)"
proof -
  have a: "getCurrentBranchName exec \<noteq>
     Inl (ExceptionError [Txt ''Could not find a suitable merged branch candidate''] cause)"
    by (auto simp add: getCurrentBranchName_def throwException_def
          split: prod.splits option.splits list.splits)
  have b: "getLastMergedBranchesNames exec \<noteq>
     Inl (ExceptionError [Txt ''Could not find a suitable merged branch candidate''] cause)"
    by (auto simp add: getLastMergedBranchesNames_def getBranchNamesFromCommitHash_def
          throwException_def split: prod.splits option.splits list.splits)
  show ?thesis
    using a b promise_all_timestamps_message [of exec _ cause]
    by (auto simp add: getLastMergedPrefix_def await_def truthy_array_def throwException_def
          Let_def split: sum.splits list.splits)
qed

text \<open>
  C5. The code at an input where no candidate remains: \<open>getLastMergedPrefix\<close> ends in the
  runtime's TypeError, not in the reporter's fatal error. A winner without a slash does end
  in the fatal error \<open>Could not extract prefix from last merged branch\<close>.
\<close>

theorem getLastMergedPrefix_no_candidate_type_error:
  "getLastMergedPrefix only_current = Inl TypeError
   \<and> getLastMergedPrefix no_slash =
       Inl (ExceptionError [Txt ''Could not extract prefix from last merged branch''] None)"
  by code_simp

section \<open>Properties of JSONFileChanger\<close>

text \<open>A run over a list of targets is the run over its front, then over its rest.\<close>

lemma updateFiles_append:
  "updateFiles ed root w (fs @ gs) =
     (case updateFiles ed root w fs of
        (Inl e, w') \<Rightarrow> (Inl e, w')
      | (Inr u, w') \<Rightarrow> updateFiles ed root w' gs)"
  by (induction fs arbitrary: w) (auto split: prod.splits sum.splits)

lemma updateFile_invalid_keys:
  assumes "keys file = Some ks" and "\<exists>k\<in>set ks. \<not> isKeyValid k"
  shows "updateFile ed root w file =
           (Inl (ExceptionError [Txt ''One or more keys are not valid for JSONFileChanger.''] None),
            w\<lparr>trace := trace w @
                 map (\<lambda>key. Info [Txt ''Key '', Underline key,
                                   Txt '' is not valid for JSONFileChanger.''])
                   (filter (\<lambda>key. \<not> isKeyValid key) ks)\<rparr>)"
proof -
  from assms(2) have ne: "ks \<noteq> []" by auto
  from assms(2) have inv: "filter (\<lambda>key. \<not> isKeyValid key) ks \<noteq> []"
    by (simp add: filter_empty_conv)
  show ?thesis
    using assms(1) ne inv
    by (simp add: updateFile_def Let_def throwException_def handlerName_def)
qed

text \<open>
  C7. For a target whose key list holds at least one key that is not a string, wherever
  the target stands among targets that were updated before it, \<open>updateFiles\<close> ends in the
  one fatal error \<open>One or more keys are not valid\<close>, and all it has done for that target is
  to print one line per invalid key, in order: no \<^verbatim>\<open>set\<close>, no \<^verbatim>\<open>save\<close>, the disk as it was.
\<close>

theorem updateFiles_invalid_keys:
  assumes "updateFiles ed root w before = (Inr (), w')"
    and "keys file = Some ks"
    and "\<exists>k\<in>set ks. \<not> isKeyValid k"
  shows "updateFiles ed root w (before @ file # after) =
           (Inl (ExceptionError [Txt ''One or more keys are not valid for JSONFileChanger.''] None),
            w'\<lparr>trace := trace w' @
                 map (\<lambda>key. Info [Txt ''Key '', Underline key,
                                   Txt '' is not valid for JSONFileChanger.''])
                   (filter (\<lambda>key. \<not> isKeyValid key) ks)\<rparr>)"
  using assms(1) updateFile_invalid_keys [OF assms(2) assms(3), of ed root w']
  by (simp add: updateFiles_append)

theorem updateFiles_invalid_keys_witness:
  "updateFiles flat_editor ''/repo'' (repo_with [(''version'', JStr ''1.0.0'')])
     [\<lparr>url = ''package.json'', keys = Some [JNum 7, JStr ''version'', JBool True]\<rparr>] =
     (Inl (ExceptionError [Txt ''One or more keys are not valid for JSONFileChanger.''] None),
      (repo_with [(''version'', JStr ''1.0.0'')])
        \<lparr>trace :=
           [Info [Txt ''Key '', Underline (JNum 7), Txt '' is not valid for JSONFileChanger.''],
            Info [Txt ''Key '', Underline (JBool True),
                  Txt '' is not valid for JSONFileChanger.'']]\<rparr>)"
proof -
  have before: "updateFiles flat_editor ''/repo'' (repo_with [(''version'', JStr ''1.0.0'')]) [] =
                  (Inr (), repo_with [(''version'', JStr ''1.0.0'')])"
    by simp
  have k: "keys \<lparr>url = ''package.json'', keys = Some [JNum 7, JStr ''version'', JBool True]\<rparr> =
             Some [JNum 7, JStr ''version'', JBool True]"
    by simp
  have bad: "\<exists>k\<in>set [JNum 7, JStr ''version'', JBool True]. \<not> isKeyValid k"
    by simp
  have tr: "trace (repo_with [(''version'', JStr ''1.0.0'')]) = []"
    by (simp add: repo_with_def)
  show ?thesis
    using updateFiles_invalid_keys [OF before k bad, of "[]"] tr by simp
qed

text \<open>
  The loop over the keys runs over a front and then over the rest, and all it adds to the
  trace are \<^verbatim>\<open>set\<close> calls.
\<close>

lemma forEach_key_append:
  "forEach_key ed u p (pre @ post) d tr =
     (case forEach_key ed u p pre d tr of
        (Inl e, d', tr') \<Rightarrow> (Inl e, d', tr')
      | (Inr x, d', tr') \<Rightarrow> forEach_key ed u p post d' tr')"
  by (induction pre arbitrary: d tr) (auto simp add: Let_def throwException_def)

lemma forEach_key_trace:
  "forEach_key ed u p ks d tr = (r, d', tr') \<Longrightarrow> \<exists>vs. tr' = tr @ map (SetCall p) vs"
proof (induction ks arbitrary: d tr)
  case Nil
  then show ?case by simp
next
  case (Cons k ks)
  show ?case
  proof (cases "js_truthy (ej_get ed d k)")
    case True
    with Cons.prems have
      "forEach_key ed u p ks (ej_set ed d (ej_get ed d k) JUndefined)
         (tr @ [SetCall p (ej_get ed d k)]) = (r, d', tr')"
      by (simp add: Let_def)
    from Cons.IH [OF this] obtain vs where
      "tr' = (tr @ [SetCall p (ej_get ed d k)]) @ map (SetCall p) vs" ..
    then have "tr' = tr @ map (SetCall p) (ej_get ed d k # vs)" by simp
    then show ?thesis ..
  next
    case False
    with Cons.prems have "tr' = tr" by (simp add: Let_def)
    then have "tr' = tr @ map (SetCall p) []" by simp
    then show ?thesis ..
  qed
qed

lemma all_valid_filter:
  "\<forall>x\<in>set ks. isKeyValid x \<Longrightarrow> filter (\<lambda>key. \<not> isKeyValid key) ks = []"
  by (simp add: filter_empty_conv)

lemma updateFile_first_falsy:
  assumes ks: "keys file = Some (pre @ k # post)"
    and valid: "\<forall>x\<in>set (pre @ k # post). isKeyValid x"
    and pre: "forEach_key ed (url file) (root @ ''/'' @ url file) pre
                (ej_open ed (disk w (root @ ''/'' @ url file))) (trace w) = (Inr (), d1, tr1)"
    and miss: "\<not> js_truthy (ej_get ed d1 k)"
  shows "updateFile ed root w file =
           (Inl (ExceptionError
                   [Txt ''Key '', UnderlineWhite k, Txt '' for file '',
                    UnderlineWhite (JStr (url file)), Txt '' was not found.'']
                   None),
            w\<lparr>trace := tr1\<rparr>)"
proof -
  have run: "forEach_key ed (url file) (root @ ''/'' @ url file) (pre @ k # post)
               (ej_open ed (disk w (root @ ''/'' @ url file))) (trace w) =
             (Inl (ExceptionError
                   [Txt ''Key '', UnderlineWhite k, Txt '' for file '',
                    UnderlineWhite (JStr (url file)), Txt '' was not found.'']
                   None), d1, tr1)"
    using pre miss by (simp add: forEach_key_append throwException_def)
  show ?thesis
    using ks all_valid_filter [OF valid] run
    by (simp add: updateFile_def Let_def)
qed

text \<open>
  C6, as stated, fails: with the keys \<open>private\<close> and \<open>versn\<close> and a file in which \<open>private\<close>
  is \<open>false\<close> and \<open>versn\<close> is missing, the message of the fatal error names \<open>private\<close>, a key
  that is in the file, and not \<open>versn\<close>.
\<close>

theorem updateFiles_names_missing_key_counterexample:
  "flat_get [(''private'', JBool False), (''version'', JStr ''1.0.0'')] (JStr ''versn'') = JUndefined
   \<and> flat_get [(''private'', JBool False), (''version'', JStr ''1.0.0'')] (JStr ''private'')
       = JBool False
   \<and> fst (updateFiles flat_editor ''/repo''
            (repo_with [(''private'', JBool False), (''version'', JStr ''1.0.0'')])
            [\<lparr>url = ''package.json'', keys = Some [JStr ''private'', JStr ''versn'']\<rparr>]) =
       Inl (ExceptionError
              [Txt ''Key '', UnderlineWhite (JStr ''private''), Txt '' for file '',
               UnderlineWhite (JStr ''package.json''), Txt '' was not found.'']
              None)"
  by (simp add: flat_get_def updateFile_def Let_def flat_editor_def repo_with_def
        throwException_def)

text \<open>
  C6, amended. For a target all of whose keys are strings, let \<open>k\<close> be the first key whose
  value reads as missing or falsy, the keys before it having read truthy values. Then
  \<open>updateFiles\<close> ends in the fatal error \<open>Key k for file url was not found.\<close>, which names \<open>k\<close>
  and the target's url; the disk is as it was before the target, and the calls made for
  the target are the \<^verbatim>\<open>set\<close> calls of the keys before \<open>k\<close>: \<^verbatim>\<open>save\<close> is not reached.
\<close>

theorem updateFiles_first_falsy_key:
  assumes before: "updateFiles ed root w before = (Inr (), w')"
    and ks: "keys file = Some (pre @ k # post)"
    and valid: "\<forall>x\<in>set (pre @ k # post). isKeyValid x"
    and pre: "forEach_key ed (url file) (root @ ''/'' @ url file) pre
                (ej_open ed (disk w' (root @ ''/'' @ url file))) (trace w') = (Inr (), d1, tr1)"
    and miss: "\<not> js_truthy (ej_get ed d1 k)"
  shows "updateFiles ed root w (before @ file # after) =
           (Inl (ExceptionError
                   [Txt ''Key '', UnderlineWhite k, Txt '' for file '',
                    UnderlineWhite (JStr (url file)), Txt '' was not found.'']
                   None),
            w'\<lparr>trace := tr1\<rparr>)
         \<and> disk (snd (updateFiles ed root w (before @ file # after))) = disk w'
         \<and> (\<exists>vs. tr1 = trace w' @ map (SetCall (root @ ''/'' @ url file)) vs)"
proof -
  have res: "updateFiles ed root w (before @ file # after) =
           (Inl (ExceptionError
                   [Txt ''Key '', UnderlineWhite k, Txt '' for file '',
                    UnderlineWhite (JStr (url file)), Txt '' was not found.'']
                   None),
            w'\<lparr>trace := tr1\<rparr>)"
    using before updateFile_first_falsy [OF ks valid pre miss]
    by (simp add: updateFiles_append)
  have tr: "\<exists>vs. tr1 = trace w' @ map (SetCall (root @ ''/'' @ url file)) vs"
    using forEach_key_trace [OF pre] .
  show ?thesis
    using res tr by simp
qed

theorem updateFiles_first_falsy_key_witness:
  "updateFiles flat_editor ''/repo'' (repo_with [(''version'', JStr ''1.0.0'')])
     [\<lparr>url = ''package.json'', keys = Some [JStr ''versn'']\<rparr>] =
     (Inl (ExceptionError
             [Txt ''Key '', UnderlineWhite (JStr ''versn''), Txt '' for file '',
              UnderlineWhite (JStr ''package.json''), Txt '' was not found.'']
             None),
      repo_with [(''version'', JStr ''1.0.0'')])"
proof -
  let ?w = "repo_with [(''version'', JStr ''1.0.0'')]"
  let ?f = "\<lparr>url = ''package.json'', keys = Some [JStr ''versn'']\<rparr>"
  have before: "updateFiles flat_editor ''/repo'' ?w [] = (Inr (), ?w)"
    by simp
  have k: "keys ?f = Some ([] @ JStr ''versn'' # [])"
    by simp
  have vd: "\<forall>x\<in>set ([] @ JStr ''versn'' # []). isKeyValid x"
    by simp
  have pre: "forEach_key flat_editor (url ?f) (''/repo'' @ ''/'' @ url ?f) []
               (ej_open flat_editor (disk ?w (''/repo'' @ ''/'' @ url ?f))) (trace ?w) =
             (Inr (), [(''version'', JStr ''1.0.0'')], [])"
    by (simp add: flat_editor_def repo_with_def)
  have miss: "\<not> js_truthy (ej_get flat_editor [(''version'', JStr ''1.0.0'')] (JStr ''versn''))"
    by (simp add: flat_editor_def flat_get_def)
  have tr: "?w\<lparr>trace := []\<rparr> = ?w"
    by (simp add: repo_with_def)
  show ?thesis
    using updateFiles_first_falsy_key [OF before k vd pre miss, of "[]"] tr by simp
qed

text \<open>Reading falsy values as \<^verbatim>\<open>undefined\<close> changes no step of a run.\<close>

lemma forEach_key_falsy_as_missing:
  "forEach_key (falsy_as_missing ed) u p ks d tr = forEach_key ed u p ks d tr"
  by (induction ks arbitrary: d tr) (simp_all add: Let_def falsy_as_missing_def)

lemma updateFile_falsy_as_missing:
  "updateFile (falsy_as_missing ed) root w file = updateFile ed root w file"
proof -
  have o: "ej_open (falsy_as_missing ed) = ej_open ed"
    by (simp add: falsy_as_missing_def)
  show ?thesis
    unfolding updateFile_def forEach_key_falsy_as_missing o ..
qed

lemma updateFiles_falsy_as_missing:
  "updateFiles (falsy_as_missing ed) root w files = updateFiles ed root w files"
  by (induction files arbitrary: w)
    (simp_all add: updateFile_falsy_as_missing split: prod.splits sum.splits)

text \<open>
  C10. A run cannot tell a key whose value is falsy from a key that is missing: it is the
  same run, on every list of targets, when every falsy value is read as \<^verbatim>\<open>undefined\<close>.
  A key that reads as \<^verbatim>\<open>undefined\<close>, \<^verbatim>\<open>null\<close>, \<^verbatim>\<open>false\<close>, \<^verbatim>\<open>0\<close> or the empty string ends the
  loop over the keys in the fatal error \<open>was not found\<close> with no \<^verbatim>\<open>set\<close>; when it is the first
  key of a target with string keys, \<open>updateFiles\<close> ends in that error and has done nothing.
\<close>

theorem updateFiles_falsy_like_missing:
  "updateFiles (falsy_as_missing ed) root w files = updateFiles ed root w files
   \<and> (\<forall>v\<in>{JUndefined, JNull, JBool False, JNum 0, JStr []}.
        ej_get ed d k = v \<longrightarrow>
        forEach_key ed u p (k # ks) d tr =
          (Inl (ExceptionError
                  [Txt ''Key '', UnderlineWhite k, Txt '' for file '', UnderlineWhite (JStr u),
                   Txt '' was not found.'']
                  None),
           d, tr))
   \<and> (\<forall>v\<in>{JUndefined, JNull, JBool False, JNum 0, JStr []}.
        keys file = Some (k # ks) \<and> (\<forall>x\<in>set (k # ks). isKeyValid x)
        \<and> ej_get ed (ej_open ed (disk w (root @ ''/'' @ url file))) k = v \<longrightarrow>
        updateFiles ed root w (file # files) =
          (Inl (ExceptionError
                  [Txt ''Key '', UnderlineWhite k, Txt '' for file '',
                   UnderlineWhite (JStr (url file)), Txt '' was not found.'']
                  None),
           w))"
proof (intro conjI ballI impI)
  show "updateFiles (falsy_as_missing ed) root w files = updateFiles ed root w files"
    by (rule updateFiles_falsy_as_missing)
next
  fix v
  assume "v \<in> {JUndefined, JNull, JBool False, JNum 0, JStr []}" and "ej_get ed d k = v"
  then have "\<not> js_truthy (ej_get ed d k)" by auto
  then show "forEach_key ed u p (k # ks) d tr =
          (Inl (ExceptionError
                  [Txt ''Key '', UnderlineWhite k, Txt '' for file '', UnderlineWhite (JStr u),
                   Txt '' was not found.'']
                  None),
           d, tr)"
    by (simp add: throwException_def)
next
  fix v
  assume v: "v \<in> {JUndefined, JNull, JBool False, JNum 0, JStr []}"
    and h: "keys file = Some (k # ks) \<and> (\<forall>x\<in>set (k # ks). isKeyValid x)
        \<and> ej_get ed (ej_open ed (disk w (root @ ''/'' @ url file))) k = v"
  from v h have miss: "\<not> js_truthy (ej_get ed (ej_open ed (disk w (root @ ''/'' @ url file))) k)"
    by auto
  have ks: "keys file = Some ([] @ k # ks)" using h by simp
  have valid: "\<forall>x\<in>set ([] @ k # ks). isKeyValid x" using h by simp
  have pre: "forEach_key ed (url file) (root @ ''/'' @ url file) []
                (ej_open ed (disk w (root @ ''/'' @ url file))) (trace w) =
             (Inr (), ej_open ed (disk w (root @ ''/'' @ url file)), trace w)"
    by simp
  show "updateFiles ed root w (file # files) =
          (Inl (ExceptionError
                  [Txt ''Key '', UnderlineWhite k, Txt '' for file '',
                   UnderlineWhite (JStr (url file)), Txt '' was not found.'']
                  None),
           w)"
    using updateFile_first_falsy [OF ks valid pre miss] by simp
qed

theorem updateFiles_falsy_like_missing_witness:
  "updateFiles flat_editor ''/repo'' (repo_with [(''version'', JStr [])])
     [\<lparr>url = ''package.json'', keys = Some [JStr ''version'']\<rparr>] =
     (Inl (ExceptionError
             [Txt ''Key '', UnderlineWhite (JStr ''version''), Txt '' for file '',
              UnderlineWhite (JStr ''package.json''), Txt '' was not found.'']
             None),
      repo_with [(''version'', JStr [])])
   \<and> updateFiles flat_editor ''/repo'' (repo_with [])
     [\<lparr>url = ''package.json'', keys = Some [JStr ''version'']\<rparr>] =
     (Inl (ExceptionError
             [Txt ''Key '', UnderlineWhite (JStr ''version''), Txt '' for file '',
              UnderlineWhite (JStr ''package.json''), Txt '' was not found.'']
             None),
      repo_with [])"
proof -
  have a: "JStr [] \<in> {JUndefined, JNull, JBool False, JNum 0, JStr []}" by simp
  have b: "JUndefined \<in> {JUndefined, JNull, JBool False, JNum 0, JStr []}" by simp
  have ga: "ej_get flat_editor
              (ej_open flat_editor
                 (disk (repo_with [(''version'', JStr [])])
                    (''/repo'' @ ''/'' @ url \<lparr>url = ''package.json'', keys = Some [JStr ''version'']\<rparr>)))
              (JStr ''version'') = JStr []"
    by (simp add: flat_editor_def flat_get_def repo_with_def)
  have gb: "ej_get flat_editor
              (ej_open flat_editor
                 (disk (repo_with [])
                    (''/repo'' @ ''/'' @ url \<lparr>url = ''package.json'', keys = Some [JStr ''version'']\<rparr>)))
              (JStr ''version'') = JUndefined"
    by (simp add: flat_editor_def flat_get_def repo_with_def)
  have k: "keys \<lparr>url = ''package.json'', keys = Some [JStr ''version'']\<rparr> = Some [JStr ''version'']"
    by simp
  have vd: "\<forall>x\<in>set [JStr ''version'']. isKeyValid x" by simp
  note T = updateFiles_falsy_like_missing
    [THEN conjunct2, THEN conjunct2, rule_format]
  have ra: "updateFiles flat_editor ''/repo'' (repo_with [(''version'', JStr [])])
     (\<lparr>url = ''package.json'', keys = Some [JStr ''version'']\<rparr> # []) =
     (Inl (ExceptionError
             [Txt ''Key '', UnderlineWhite (JStr ''version''), Txt '' for file '',
              UnderlineWhite (JStr (url \<lparr>url = ''package.json'', keys = Some [JStr ''version'']\<rparr>)), Txt '' was not found.'']
             None),
      repo_with [(''version'', JStr [])])"
    using T [OF a] k vd ga by blast
  have rb: "updateFiles flat_editor ''/repo'' (repo_with [])
     (\<lparr>url = ''package.json'', keys = Some [JStr ''version'']\<rparr> # []) =
     (Inl (ExceptionError
             [Txt ''Key '', UnderlineWhite (JStr ''version''), Txt '' for file '',
              UnderlineWhite (JStr (url \<lparr>url = ''package.json'', keys = Some [JStr ''version'']\<rparr>)), Txt '' was not found.'']
             None),
      repo_with [])"
    using T [OF b] k vd gb by blast
  show ?thesis
    using ra rb by simp
qed

text \<open>
  C2. The code at a file whose \<open>version\<close> holds the string \<open>version\<close>, with the default
  keys: the run completes, and the file it saves has no \<open>version\<close> any more, because the
  value read is passed to \<^verbatim>\<open>set\<close> as the path.
\<close>

theorem updateFiles_drops_version:
  "fst (updateFiles flat_editor ''/repo'' (repo_with [(''version'', JStr ''version'')])
          [\<lparr>url = ''package.json'', keys = None\<rparr>]) = Inr ()
   \<and> disk (snd (updateFiles flat_editor ''/repo'' (repo_with [(''version'', JStr ''version'')])
          [\<lparr>url = ''package.json'', keys = None\<rparr>])) ''/repo/package.json'' = Some []
   \<and> trace (snd (updateFiles flat_editor ''/repo'' (repo_with [(''version'', JStr ''version'')])
          [\<lparr>url = ''package.json'', keys = None\<rparr>])) =
       [Info [Txt ''Keys for file package.json not specified. Using default keys instead.''],
        SetCall ''/repo/package.json'' (JStr ''version''),
        SaveCall ''/repo/package.json'']"
  by (simp add: flat_get_def flat_set_def updateFile_def Let_def flat_editor_def repo_with_def
        defaultKeys_def)

end
